theory Spec2Isabelle
  imports Complex_Main
begin

section \<open>Python values and exceptions\<close>

text \<open>
  The controller handles deserialised JSON (request bodies) and the dictionaries returned
  by the compute and network services. Both are modelled by one type of Python values.
  A dictionary is an association list with string keys, read through \<open>map_of\<close>.
  A finite floating-point number is the real number it denotes: the controller only tests
  such a value for truth, and never computes with it.
\<close>

datatype pyval =
    PNone
  | PBool bool
  | PInt int
  | PFloat real
  | PStr string
  | PList "pyval list"
  | PDict "(string \<times> pyval) list"

text \<open>Truth value testing, as done by \<open>if body:\<close> and by \<open>and\<close>/\<open>not\<close>.\<close>

fun truthy :: "pyval \<Rightarrow> bool" where
  "truthy PNone = False"
| "truthy (PBool b) = b"
| "truthy (PInt n) = (n \<noteq> 0)"
| "truthy (PFloat x) = (x \<noteq> 0)"
| "truthy (PStr s) = (s \<noteq> [])"
| "truthy (PList xs) = (xs \<noteq> [])"
| "truthy (PDict kvs) = (kvs \<noteq> [])"

text \<open>
  Exceptions. The built-in classes have no \<open>format_message\<close> method; the classes of
  \<open>nova.exception\<close> have one and carry their message. \<open>InstanceNotFound\<close> and
  \<open>PortNotFound\<close> are subclasses of \<open>NotFound\<close>; \<open>NovaException\<close> stands for
  every other class of \<open>nova.exception\<close> (the policy failure raised by the authorizer
  among them), \<open>OtherError\<close> for every other built-in class. The classes of
  \<open>webob.exc\<close> carry the optional \<open>explanation\<close> they were built with.
\<close>

datatype builtin_exc =
  KeyError | IndexError | TypeError | AttributeError | NotImplementedError | OtherError

datatype nova_exc =
  InstanceNotFound | PortNotFound | NotFound | InterfaceAttachFailed | NovaException

datatype http_exc =
  HTTPBadRequest | HTTPNotFound | HTTPNotImplemented | HTTPInternalServerError

datatype exn =
    Builtin builtin_exc
  | Nova nova_exc string
  | HTTP http_exc "string option"

text \<open>\<open>e.format_message()\<close>: an attribute lookup that fails on anything but a nova exception.\<close>

fun format_message :: "exn \<Rightarrow> exn + string" where
  "format_message (Nova c m) = Inr m"
| "format_message (Builtin c) = Inl (Builtin AttributeError)"
| "format_message (HTTP c x) = Inl (Builtin AttributeError)"

text \<open>
  The tests of the \<open>except\<close> clauses. \<open>except exception.NotFound\<close> catches the class
  and its subclasses; the other classes named by the controller have no modelled subclass.
\<close>

fun is_InstanceNotFound :: "exn \<Rightarrow> bool" where
  "is_InstanceNotFound (Nova InstanceNotFound m) = True"
| "is_InstanceNotFound e = False"

fun is_PortNotFound :: "exn \<Rightarrow> bool" where
  "is_PortNotFound (Nova PortNotFound m) = True"
| "is_PortNotFound e = False"

fun is_InterfaceAttachFailed :: "exn \<Rightarrow> bool" where
  "is_InterfaceAttachFailed (Nova InterfaceAttachFailed m) = True"
| "is_InterfaceAttachFailed e = False"

fun is_NotImplementedError :: "exn \<Rightarrow> bool" where
  "is_NotImplementedError (Builtin NotImplementedError) = True"
| "is_NotImplementedError e = False"

fun is_NotFound :: "exn \<Rightarrow> bool" where
  "is_NotFound (Nova InstanceNotFound m) = True"
| "is_NotFound (Nova PortNotFound m) = True"
| "is_NotFound (Nova NotFound m) = True"
| "is_NotFound e = False"

text \<open>
  Modelled from the spec: the status codes of the \<open>webob.exc\<close> classes, which belong
  to a library outside this repository; the error taxonomy of the spec gives 400, 404, 501
  and 500.
\<close>

fun code :: "http_exc \<Rightarrow> int" where
  "code HTTPBadRequest = 400"
| "code HTTPNotFound = 404"
| "code HTTPNotImplemented = 501"
| "code HTTPInternalServerError = 500"

text \<open>The status with which an exception leaves the controller, if it is an HTTP one.\<close>

fun status_of :: "exn \<Rightarrow> int option" where
  "status_of (HTTP c x) = Some (code c)"
| "status_of e = None"

subsection \<open>Subscription and \<open>dict.get\<close>\<close>

text \<open>\<open>obj['k']\<close> for a string literal \<open>k\<close>.\<close>

fun getitem_key :: "pyval \<Rightarrow> string \<Rightarrow> exn + pyval" where
  "getitem_key (PDict kvs) k =
     (case map_of kvs k of None \<Rightarrow> Inl (Builtin KeyError) | Some v \<Rightarrow> Inr v)"
| "getitem_key obj k = Inl (Builtin TypeError)"

text \<open>
  \<open>obj[0]\<close>: the first element of a list, the first character of a string; a dictionary
  with string keys has no key \<open>0\<close>.
\<close>

fun getitem0 :: "pyval \<Rightarrow> exn + pyval" where
  "getitem0 (PList []) = Inl (Builtin IndexError)"
| "getitem0 (PList (x # xs)) = Inr x"
| "getitem0 (PStr []) = Inl (Builtin IndexError)"
| "getitem0 (PStr (c # cs)) = Inr (PStr [c])"
| "getitem0 (PDict kvs) = Inl (Builtin KeyError)"
| "getitem0 obj = Inl (Builtin TypeError)"

text \<open>\<open>obj.get('k', default)\<close>: only a dictionary has the attribute \<open>get\<close>.\<close>

fun py_get :: "pyval \<Rightarrow> string \<Rightarrow> pyval \<Rightarrow> exn + pyval" where
  "py_get (PDict kvs) k d = (case map_of kvs k of None \<Rightarrow> Inr d | Some v \<Rightarrow> Inr v)"
| "py_get obj k d = Inl (Builtin AttributeError)"

text \<open>
  \<open>for port in ports\<close>: a list yields its elements, a string its characters, a dictionary
  its keys (in the order of the association list); nothing else is iterable.
\<close>

fun py_iter :: "pyval \<Rightarrow> exn + pyval list" where
  "py_iter (PList xs) = Inr xs"
| "py_iter (PStr s) = Inr (map (\<lambda>c. PStr [c]) s)"
| "py_iter (PDict kvs) = Inr (map (\<lambda>kv. PStr (fst kv)) kvs)"
| "py_iter obj = Inl (Builtin TypeError)"

section \<open>The collaborators and the trace of calls\<close>

text \<open>
  The request carries the context that the platform stored under
  \<open>req.environ['nova.context']\<close>.
\<close>

datatype request_context = RequestContext (user_id: string) (project_id: string)

record request =
  nova_context :: request_context

text \<open>
  Every call the controller makes to the authorizer, \<open>compute_api\<close> or \<open>network_api\<close>,
  with its arguments. \<open>List_ports\<close> carries the value of the \<open>device_id\<close> filter.
\<close>

datatype call =
    Authorize request_context
  | Compute_get request_context string
  | Attach_interface request_context pyval pyval pyval pyval
  | Detach_interface request_context pyval pyval
  | Show_port request_context pyval
  | List_ports request_context pyval

text \<open>
  What the controller does that an observer sees: its calls and its log records
  (\<open>LOG.audit\<close> with the message, its arguments and the instance; \<open>LOG.exception\<close>).
\<close>

datatype event =
    Call call
  | Audit string "pyval list" pyval
  | Exception_logged exn

text \<open>
  The services are external and stateful: a call maps the state of the backend to a
  result (a value or a raised exception) and a new state.
\<close>

type_synonym 's services = "call \<Rightarrow> 's \<Rightarrow> (exn + pyval) \<times> 's"

record 's world =
  backend :: 's
  trace :: "event list"

definition invoke :: "'s services \<Rightarrow> call \<Rightarrow> 's world \<Rightarrow> (exn + pyval) \<times> 's world" where
  "invoke api c w =
     (case api c (backend w) of
        (r, s') \<Rightarrow> (r, \<lparr>backend = s', trace = trace w @ [Call c]\<rparr>))"

definition LOG :: "event \<Rightarrow> 's world \<Rightarrow> 's world" where
  "LOG ev w = \<lparr>backend = backend w, trace = trace w @ [ev]\<rparr>"

text \<open>What a controller method returns: a dictionary to serialise, or a \<open>webob.Response\<close>.\<close>

datatype retval =
    Body pyval
  | Response (status_int: int) (response_body: string)

section \<open>The controller\<close>

text \<open>\<open>_translate_interface_attachment_view\<close>: the entries are evaluated in this order.\<close>

definition translate_interface_attachment_view :: "pyval \<Rightarrow> exn + pyval" where
  "translate_interface_attachment_view port_info =
     (case getitem_key port_info ''network_id'' of Inl e \<Rightarrow> Inl e | Inr network_id \<Rightarrow>
     (case getitem_key port_info ''id'' of Inl e \<Rightarrow> Inl e | Inr pid \<Rightarrow>
     (case getitem_key port_info ''mac_address'' of Inl e \<Rightarrow> Inl e | Inr mac_address \<Rightarrow>
     (case getitem_key port_info ''status'' of Inl e \<Rightarrow> Inl e | Inr status \<Rightarrow>
     (case py_get port_info ''fixed_ips'' PNone of Inl e \<Rightarrow> Inl e | Inr fixed_ips \<Rightarrow>
        Inr (PDict [(''net_id'', network_id),
                    (''port_id'', pid),
                    (''mac_addr'', mac_address),
                    (''port_state'', status),
                    (''fixed_ips'', fixed_ips)]))))))"

text \<open>
  \<open>raise cls(explanation=err.format_message())\<close>: the argument is evaluated first, and
  what it raises replaces the exception being handled.
\<close>

definition raise_explained :: "http_exc \<Rightarrow> exn \<Rightarrow> exn" where
  "raise_explained c err =
     (case format_message err of Inl e \<Rightarrow> e | Inr m \<Rightarrow> HTTP c (Some m))"

text \<open>
  \<open>show\<close> (the name is an Isar keyword, hence the suffix). The argument \<open>port_id\<close> is a
  string when it comes from the request path, and whatever \<open>port_info['id']\<close> is when
  \<open>create\<close> calls the method.
\<close>

definition show_attachment ::
  "'s services \<Rightarrow> request \<Rightarrow> string \<Rightarrow> pyval \<Rightarrow> 's world \<Rightarrow> (exn + retval) \<times> 's world" where
  "show_attachment api req server_id port_id w0 =
     (let context = nova_context req in
      case invoke api (Authorize context) w0 of
        (Inl e, w1) \<Rightarrow> (Inl e, w1)
      | (Inr u, w1) \<Rightarrow>
     (case invoke api (Compute_get context server_id) w1 of
        (Inl err, w2) \<Rightarrow>
          (if is_InstanceNotFound err
           then (Inl (raise_explained HTTPNotFound err), w2) else (Inl err, w2))
      | (Inr instance, w2) \<Rightarrow>
     (case invoke api (Show_port context port_id) w2 of
        (Inl err, w3) \<Rightarrow>
          (if is_NotFound err then (Inl (HTTP HTTPNotFound None), w3) else (Inl err, w3))
      | (Inr port_info, w3) \<Rightarrow>
     (case getitem_key port_info ''port'' of
        Inl e \<Rightarrow> (Inl e, w3)
      | Inr port \<Rightarrow>
     (case getitem_key port ''device_id'' of
        Inl e \<Rightarrow> (Inl e, w3)
      | Inr device_id \<Rightarrow>
          if device_id \<noteq> PStr server_id then (Inl (HTTP HTTPNotFound None), w3)
          else
     (case translate_interface_attachment_view port of
        Inl e \<Rightarrow> (Inl e, w3)
      | Inr view \<Rightarrow> (Inr (Body (PDict [(''interface_attachment'', view)])), w3)))))))"

text \<open>
  The permissive parse of \<open>create\<close> (lines 86 to 96): \<open>req_ip\<close> is
  \<open>attachment['fixed_ips'][0]['ip_address']\<close>, and \<open>None\<close> when any step of it raises.
\<close>

definition req_ip_of :: "pyval \<Rightarrow> pyval" where
  "req_ip_of attachment =
     (case getitem_key attachment ''fixed_ips'' of Inl e \<Rightarrow> PNone | Inr fixed_ips \<Rightarrow>
     (case getitem0 fixed_ips of Inl e \<Rightarrow> PNone | Inr fixed_ip \<Rightarrow>
     (case getitem_key fixed_ip ''ip_address'' of Inl e \<Rightarrow> PNone | Inr ip \<Rightarrow> ip)))"

definition create_params :: "pyval \<Rightarrow> exn + (pyval \<times> pyval \<times> pyval)" where
  "create_params body =
     (if truthy body then
        (case getitem_key body ''interface_attachment'' of Inl e \<Rightarrow> Inl e | Inr attachment \<Rightarrow>
        (case py_get attachment ''net_id'' PNone of Inl e \<Rightarrow> Inl e | Inr network_id \<Rightarrow>
        (case py_get attachment ''port_id'' PNone of Inl e \<Rightarrow> Inl e | Inr port_id \<Rightarrow>
           Inr (network_id, port_id, req_ip_of attachment))))
      else Inr (PNone, PNone, PNone))"

text \<open>The \<open>except\<close> clauses of \<open>create\<close> (lines 108 to 115), tried in this order.\<close>

definition create_except :: "exn \<Rightarrow> 's world \<Rightarrow> (exn + retval) \<times> 's world" where
  "create_except e w =
     (if is_InstanceNotFound e then (Inl (raise_explained HTTPNotFound e), w)
      else if is_NotImplementedError e then (Inl (raise_explained HTTPNotImplemented e), w)
      else if is_InterfaceAttachFailed e then
        (Inl (raise_explained HTTPInternalServerError e), LOG (Exception_logged e) w)
      else (Inl e, w))"

definition create ::
  "'s services \<Rightarrow> request \<Rightarrow> string \<Rightarrow> pyval \<Rightarrow> 's world \<Rightarrow> (exn + retval) \<times> 's world" where
  "create api req server_id body w0 =
     (let context = nova_context req in
      case invoke api (Authorize context) w0 of
        (Inl e, w1) \<Rightarrow> (Inl e, w1)
      | (Inr u, w1) \<Rightarrow>
     (case create_params body of
        Inl e \<Rightarrow> (Inl e, w1)
      | Inr (network_id, port_id, req_ip) \<Rightarrow>
          if truthy network_id \<and> truthy port_id then (Inl (HTTP HTTPBadRequest None), w1)
          else if truthy req_ip \<and> \<not> truthy network_id then (Inl (HTTP HTTPBadRequest None), w1)
          else
     (case invoke api (Compute_get context server_id) w1 of
        (Inl e, w2) \<Rightarrow> create_except e w2
      | (Inr instance, w2) \<Rightarrow>
     (case invoke api (Attach_interface context instance network_id port_id req_ip)
             (LOG (Audit ''Attach interface to %s'' [] instance) w2) of
        (Inl e, w3) \<Rightarrow> create_except e w3
      | (Inr port_info, w3) \<Rightarrow>
     (case getitem_key port_info ''id'' of
        Inl e \<Rightarrow> (Inl e, w3)
      | Inr new_id \<Rightarrow> show_attachment api req server_id new_id w3)))))"

definition update ::
  "'s services \<Rightarrow> request \<Rightarrow> string \<Rightarrow> pyval \<Rightarrow> pyval \<Rightarrow> 's world \<Rightarrow> (exn + retval) \<times> 's world" where
  "update api req server_id port_id body w0 =
     (let msg = ''Attachments update is not supported''
      in (Inl (HTTP HTTPNotImplemented (Some msg)), w0))"

text \<open>A \<open>webob.Response\<close> built with a status only has an empty body.\<close>

definition delete ::
  "'s services \<Rightarrow> request \<Rightarrow> string \<Rightarrow> pyval \<Rightarrow> 's world \<Rightarrow> (exn + retval) \<times> 's world" where
  "delete api req server_id port_id w0 =
     (let context = nova_context req in
      case invoke api (Authorize context) w0 of
        (Inl e, w1) \<Rightarrow> (Inl e, w1)
      | (Inr u, w1) \<Rightarrow>
     (case invoke api (Compute_get context server_id) w1 of
        (Inl err, w2) \<Rightarrow>
          (if is_InstanceNotFound err
           then (Inl (raise_explained HTTPNotFound err), w2) else (Inl err, w2))
      | (Inr instance, w2) \<Rightarrow>
     (case invoke api (Detach_interface context instance port_id)
             (LOG (Audit ''Detach interface %s'' [port_id] instance) w2) of
        (Inl e, w3) \<Rightarrow>
          (if is_PortNotFound e then (Inl (HTTP HTTPNotFound None), w3)
           else if is_NotImplementedError e
           then (Inl (raise_explained HTTPNotImplemented e), w3)
           else (Inl e, w3))
      | (Inr u', w3) \<Rightarrow> (Inr (Response 202 []), w3))))"

text \<open>The list comprehension of \<open>_items\<close>: it stops at the first element that raises.\<close>

fun make_entities :: "(pyval \<Rightarrow> exn + pyval) \<Rightarrow> pyval list \<Rightarrow> exn + pyval list" where
  "make_entities entity_maker [] = Inr []"
| "make_entities entity_maker (port # ports) =
     (case entity_maker port of Inl e \<Rightarrow> Inl e | Inr v \<Rightarrow>
     (case make_entities entity_maker ports of Inl e \<Rightarrow> Inl e | Inr vs \<Rightarrow> Inr (v # vs)))"

definition items ::
  "'s services \<Rightarrow> request \<Rightarrow> string \<Rightarrow> (pyval \<Rightarrow> exn + pyval) \<Rightarrow> 's world
     \<Rightarrow> (exn + retval) \<times> 's world" where
  "items api req server_id entity_maker w0 =
     (let context = nova_context req in
      case invoke api (Authorize context) w0 of
        (Inl e, w1) \<Rightarrow> (Inl e, w1)
      | (Inr u, w1) \<Rightarrow>
     (case invoke api (Compute_get context server_id) w1 of
        (Inl e, w2) \<Rightarrow>
          (if is_InstanceNotFound e
           then (Inl (raise_explained HTTPNotFound e), w2) else (Inl e, w2))
      | (Inr instance, w2) \<Rightarrow>
     (case getitem_key instance ''uuid'' of
        Inl e \<Rightarrow> (Inl e, w2)
      | Inr uuid \<Rightarrow>
     (case invoke api (List_ports context uuid) w2 of
        (Inl e, w3) \<Rightarrow>
          (if is_NotFound e then (Inl (HTTP HTTPNotFound None), w3)
           else if is_NotImplementedError e then
             (Inl (HTTP HTTPNotImplemented
                     (Some ''Network driver does not support this function.'')), w3)
           else (Inl e, w3))
      | (Inr data, w3) \<Rightarrow>
     (case py_get data ''ports'' (PList []) of
        Inl e \<Rightarrow> (Inl e, w3)
      | Inr ports \<Rightarrow>
     (case py_iter ports of
        Inl e \<Rightarrow> (Inl e, w3)
      | Inr ps \<Rightarrow>
     (case make_entities entity_maker ps of
        Inl e \<Rightarrow> (Inl e, w3)
      | Inr results \<Rightarrow>
          (Inr (Body (PDict [(''interface_attachments'', PList results)])), w3))))))))"

definition index ::
  "'s services \<Rightarrow> request \<Rightarrow> string \<Rightarrow> 's world \<Rightarrow> (exn + retval) \<times> 's world" where
  "index api req server_id w0 =
     items api req server_id translate_interface_attachment_view w0"

section \<open>A test double of the collaborators\<close>

text \<open>
  A small backend on which the theorems below are instantiated. Its state is the list of
  ports known to the network service. The user \<open>admin\<close> is authorized, the instances
  \<open>srv-1\<close> and \<open>srv-2\<close> exist, and attaching allocates the port \<open>p1\<close> on the network
  \<open>net-A\<close>. When \<open>supported\<close> is false the virt driver has no interface hot-plug: attach
  and detach raise the built-in \<open>NotImplementedError\<close>, as the driver base class does.
\<close>

definition fake_port :: "string \<Rightarrow> string \<Rightarrow> pyval \<Rightarrow> pyval" where
  "fake_port pid net dev =
     PDict [(''id'', PStr pid),
            (''network_id'', PStr net),
            (''mac_address'', PStr ''fa:16:3e:00:00:01''),
            (''status'', PStr ''ACTIVE''),
            (''device_id'', dev),
            (''fixed_ips'', PList [PDict [(''ip_address'', PStr ''10.0.0.2'')]])]"

definition has_id :: "pyval \<Rightarrow> pyval \<Rightarrow> bool" where
  "has_id pid p = (getitem_key p ''id'' = Inr pid)"

definition has_device :: "pyval \<Rightarrow> pyval \<Rightarrow> bool" where
  "has_device dev p = (getitem_key p ''device_id'' = Inr dev)"

fun fake_api :: "bool \<Rightarrow> (pyval list) services" where
  "fake_api supported (Authorize ctx) ports =
     (if user_id ctx = ''admin'' then (Inr PNone, ports)
      else (Inl (Nova NovaException ''Policy does not allow this request''), ports))"
| "fake_api supported (Compute_get ctx sid) ports =
     (if sid = ''srv-1'' \<or> sid = ''srv-2'' then (Inr (PDict [(''uuid'', PStr sid)]), ports)
      else (Inl (Nova InstanceNotFound ''Instance could not be found''), ports))"
| "fake_api supported (Attach_interface ctx inst net pid ip) ports =
     (if supported
      then (case getitem_key inst ''uuid'' of
              Inl e \<Rightarrow> (Inl e, ports)
            | Inr dev \<Rightarrow> (Inr (fake_port ''p1'' ''net-A'' dev),
                         ports @ [fake_port ''p1'' ''net-A'' dev]))
      else (Inl (Builtin NotImplementedError), ports))"
| "fake_api supported (Detach_interface ctx inst pid) ports =
     (if \<not> supported then (Inl (Builtin NotImplementedError), ports)
      else if list_ex (has_id pid) ports then (Inr PNone, filter (\<lambda>p. \<not> has_id pid p) ports)
      else (Inl (Nova PortNotFound ''Port could not be found''), ports))"
| "fake_api supported (Show_port ctx pid) ports =
     (case find (has_id pid) ports of
        None \<Rightarrow> (Inl (Nova PortNotFound ''Port could not be found''), ports)
      | Some p \<Rightarrow> (Inr (PDict [(''port'', p)]), ports))"
| "fake_api supported (List_ports ctx dev) ports =
     (Inr (PDict [(''ports'', PList (filter (has_device dev) ports))]), ports)"

definition admin_req :: request where
  "admin_req = \<lparr>nova_context = RequestContext ''admin'' ''demo''\<rparr>"

definition guest_req :: request where
  "guest_req = \<lparr>nova_context = RequestContext ''guest'' ''demo''\<rparr>"

definition start :: "pyval list \<Rightarrow> (pyval list) world" where
  "start ports = \<lparr>backend = ports, trace = []\<rparr>"

section \<open>Basic facts\<close>

lemmas fixture_defs =
  start_def admin_req_def guest_req_def fake_port_def has_id_def has_device_def

lemma translate_view_dict:
  "map_of kvs ''network_id'' = Some network_id \<Longrightarrow>
   map_of kvs ''id'' = Some pid \<Longrightarrow>
   map_of kvs ''mac_address'' = Some mac_address \<Longrightarrow>
   map_of kvs ''status'' = Some status \<Longrightarrow>
   translate_interface_attachment_view (PDict kvs) =
     Inr (PDict [(''net_id'', network_id),
                 (''port_id'', pid),
                 (''mac_addr'', mac_address),
                 (''port_state'', status),
                 (''fixed_ips'', case map_of kvs ''fixed_ips'' of None \<Rightarrow> PNone | Some v \<Rightarrow> v)])"
  by (simp add: translate_interface_attachment_view_def split: option.split)

text \<open>What the permissive parse of \<open>create\<close> extracts from a well-formed body.\<close>

lemma create_params_dict:
  "kvs \<noteq> [] \<Longrightarrow> map_of kvs ''interface_attachment'' = Some (PDict att) \<Longrightarrow>
   create_params (PDict kvs) =
     Inr (case map_of att ''net_id'' of None \<Rightarrow> PNone | Some v \<Rightarrow> v,
          case map_of att ''port_id'' of None \<Rightarrow> PNone | Some v \<Rightarrow> v,
          req_ip_of (PDict att))"
  by (simp add: create_params_def split: option.split)

lemma req_ip_of_first_address:
  "map_of att ''fixed_ips'' = Some (PList (PDict ip # others)) \<Longrightarrow>
   map_of ip ''ip_address'' = Some x \<Longrightarrow>
   req_ip_of (PDict att) = x"
  by (simp add: req_ip_of_def)

lemma req_ip_of_no_fixed_ips:
  "map_of att ''fixed_ips'' = None \<Longrightarrow> req_ip_of (PDict att) = PNone"
  by (simp add: req_ip_of_def)

text \<open>Every operation but \<open>update\<close> only adds to the trace, the authorization check first.\<close>

lemma show_attachment_trace:
  "show_attachment api req server_id port_id w = (r, w') \<Longrightarrow>
   \<exists>rest. trace w' = trace w @ Call (Authorize (nova_context req)) # rest"
  unfolding show_attachment_def Let_def invoke_def
  by (auto split: prod.splits sum.splits if_splits)

lemma show_attachment_extends:
  "show_attachment api req server_id port_id w = (r, w') \<Longrightarrow> \<exists>rest. trace w' = trace w @ rest"
  by (drule show_attachment_trace) blast

lemma create_except_trace:
  "create_except e w = (r, w') \<Longrightarrow> \<exists>rest. trace w' = trace w @ rest"
  unfolding create_except_def LOG_def
  by (auto split: if_splits)

lemma create_trace:
  "create api req server_id body w = (r, w') \<Longrightarrow>
   \<exists>rest. trace w' = trace w @ Call (Authorize (nova_context req)) # rest"
  unfolding create_def Let_def invoke_def LOG_def
  by (auto split: prod.splits sum.splits if_splits
           dest!: show_attachment_trace create_except_trace)

lemma delete_trace:
  "delete api req server_id port_id w = (r, w') \<Longrightarrow>
   \<exists>rest. trace w' = trace w @ Call (Authorize (nova_context req)) # rest"
  unfolding delete_def Let_def invoke_def LOG_def
  by (auto split: prod.splits sum.splits if_splits)

lemma items_trace:
  "items api req server_id entity_maker w = (r, w') \<Longrightarrow>
   \<exists>rest. trace w' = trace w @ Call (Authorize (nova_context req)) # rest"
  unfolding items_def Let_def invoke_def
  by (auto split: prod.splits sum.splits if_splits)

text \<open>The list comprehension yields exactly the element-wise images, when all exist.\<close>

lemma make_entities_list_all2:
  "list_all2 (\<lambda>p v. f p = Inr v) ps vs \<Longrightarrow> make_entities f ps = Inr vs"
  by (induction rule: list_all2_induct) auto

text \<open>
  The \<open>except\<close> clauses of \<open>create\<close>, one class at a time. The two nova classes are
  mapped as intended; the built-in \<open>NotImplementedError\<close> has no \<open>format_message\<close>, so
  its handler raises \<open>AttributeError\<close> instead of the 501 it was building.
\<close>

lemma create_except_InstanceNotFound:
  "create_except (Nova InstanceNotFound m) w = (Inl (HTTP HTTPNotFound (Some m)), w)"
  by (simp add: create_except_def raise_explained_def)

lemma create_except_InterfaceAttachFailed:
  "create_except (Nova InterfaceAttachFailed m) w =
     (Inl (HTTP HTTPInternalServerError (Some m)),
      LOG (Exception_logged (Nova InterfaceAttachFailed m)) w)"
  by (simp add: create_except_def raise_explained_def)

lemma create_except_NotImplementedError:
  "create_except (Builtin NotImplementedError) w = (Inl (Builtin AttributeError), w)"
  by (simp add: create_except_def raise_explained_def)

text \<open>The sibling path: \<open>_items\<close> answers the same exception with 501, with a fixed message.\<close>

lemma items_NotImplementedError:
  "api (Authorize (nova_context req)) (backend w0) = (Inr u, s1) \<Longrightarrow>
   api (Compute_get (nova_context req) server_id) s1 = (Inr inst, s2) \<Longrightarrow>
   getitem_key inst ''uuid'' = Inr uuid \<Longrightarrow>
   api (List_ports (nova_context req) uuid) s2 = (Inl (Builtin NotImplementedError), s3) \<Longrightarrow>
   fst (items api req server_id entity_maker w0) =
     Inl (HTTP HTTPNotImplemented (Some ''Network driver does not support this function.''))"
  by (simp add: items_def invoke_def Let_def)

section \<open>The claims\<close>

text \<open>
  Throughout, "the authorization check passes", "the instance exists" and "the network
  service returns a port" are statements about what the collaborators answer in the state
  the backend is in when the controller calls them.
\<close>

text \<open>
  C1. When the authorization check passes, the instance exists and the network service
  returns a port for the requested id whose \<open>device_id\<close> differs from the server id of the
  request path, \<open>show\<close> raises \<open>HTTPNotFound\<close> (404) without explanation, so nothing of the
  port is in the response. Hence whenever \<open>show\<close> returns a view, that view is the
  translation of a port the network service returned for the requested id and whose
  \<open>device_id\<close> is the server id of the request path.
\<close>

theorem show_foreign_port_NotFound:
  "(api (Authorize (nova_context req)) (backend w0) = (Inr u, s1) \<and>
    api (Compute_get (nova_context req) server_id) s1 = (Inr inst, s2) \<and>
    api (Show_port (nova_context req) port_id) s2 = (Inr port_info, s3) \<and>
    getitem_key port_info ''port'' = Inr port \<and>
    getitem_key port ''device_id'' = Inr device_id \<and>
    device_id \<noteq> PStr server_id
    \<longrightarrow> fst (show_attachment api req server_id port_id w0) = Inl (HTTP HTTPNotFound None)
        \<and> status_of (HTTP HTTPNotFound None) = Some 404)
   \<and> (\<forall>r w'. show_attachment api req server_id port_id w0 = (Inr r, w') \<longrightarrow>
         (\<exists>u w1 inst w2 port_info port view.
            invoke api (Authorize (nova_context req)) w0 = (Inr u, w1) \<and>
            invoke api (Compute_get (nova_context req) server_id) w1 = (Inr inst, w2) \<and>
            invoke api (Show_port (nova_context req) port_id) w2 = (Inr port_info, w') \<and>
            getitem_key port_info ''port'' = Inr port \<and>
            getitem_key port ''device_id'' = Inr (PStr server_id) \<and>
            translate_interface_attachment_view port = Inr view \<and>
            r = Body (PDict [(''interface_attachment'', view)])))"
proof (intro conjI impI allI)
  assume h: "api (Authorize (nova_context req)) (backend w0) = (Inr u, s1) \<and>
    api (Compute_get (nova_context req) server_id) s1 = (Inr inst, s2) \<and>
    api (Show_port (nova_context req) port_id) s2 = (Inr port_info, s3) \<and>
    getitem_key port_info ''port'' = Inr port \<and>
    getitem_key port ''device_id'' = Inr device_id \<and>
    device_id \<noteq> PStr server_id"
  then show "fst (show_attachment api req server_id port_id w0) = Inl (HTTP HTTPNotFound None)"
    by (simp add: show_attachment_def invoke_def Let_def)
next
  show "status_of (HTTP HTTPNotFound None) = Some 404" by simp
next
  fix r w'
  assume "show_attachment api req server_id port_id w0 = (Inr r, w')"
  then show "\<exists>u w1 inst w2 port_info port view.
            invoke api (Authorize (nova_context req)) w0 = (Inr u, w1) \<and>
            invoke api (Compute_get (nova_context req) server_id) w1 = (Inr inst, w2) \<and>
            invoke api (Show_port (nova_context req) port_id) w2 = (Inr port_info, w') \<and>
            getitem_key port_info ''port'' = Inr port \<and>
            getitem_key port ''device_id'' = Inr (PStr server_id) \<and>
            translate_interface_attachment_view port = Inr view \<and>
            r = Body (PDict [(''interface_attachment'', view)])"
    unfolding show_attachment_def Let_def
    by (auto split: prod.splits sum.splits if_splits)
qed

text \<open>The port \<open>p1\<close> of \<open>srv-1\<close>, asked for under \<open>srv-2\<close>.\<close>

theorem show_foreign_port_NotFound_witness:
  "getitem_key (fake_port ''p1'' ''net-A'' (PStr ''srv-1'')) ''device_id'' = Inr (PStr ''srv-1'')
   \<and> PStr ''srv-1'' \<noteq> PStr ''srv-2''
   \<and> fst (show_attachment (fake_api True) admin_req ''srv-2'' (PStr ''p1'')
             (start [fake_port ''p1'' ''net-A'' (PStr ''srv-1'')]))
       = Inl (HTTP HTTPNotFound None)"
proof -
  have h: "fake_api True (Authorize (nova_context admin_req))
             (backend (start [fake_port ''p1'' ''net-A'' (PStr ''srv-1'')]))
             = (Inr PNone, [fake_port ''p1'' ''net-A'' (PStr ''srv-1'')]) \<and>
    fake_api True (Compute_get (nova_context admin_req) ''srv-2'')
        [fake_port ''p1'' ''net-A'' (PStr ''srv-1'')]
      = (Inr (PDict [(''uuid'', PStr ''srv-2'')]), [fake_port ''p1'' ''net-A'' (PStr ''srv-1'')]) \<and>
    fake_api True (Show_port (nova_context admin_req) (PStr ''p1''))
        [fake_port ''p1'' ''net-A'' (PStr ''srv-1'')]
      = (Inr (PDict [(''port'', fake_port ''p1'' ''net-A'' (PStr ''srv-1''))]),
         [fake_port ''p1'' ''net-A'' (PStr ''srv-1'')]) \<and>
    getitem_key (PDict [(''port'', fake_port ''p1'' ''net-A'' (PStr ''srv-1''))]) ''port''
      = Inr (fake_port ''p1'' ''net-A'' (PStr ''srv-1'')) \<and>
    getitem_key (fake_port ''p1'' ''net-A'' (PStr ''srv-1'')) ''device_id'' = Inr (PStr ''srv-1'') \<and>
    PStr ''srv-1'' \<noteq> PStr ''srv-2''"
    by (simp add: fixture_defs)
  from h show_foreign_port_NotFound
    [where api = "fake_api True" and req = admin_req and server_id = "''srv-2''"
       and port_id = "PStr ''p1''" and ?w0.0 = "start [fake_port ''p1'' ''net-A'' (PStr ''srv-1'')]"
       and u = PNone and ?s1.0 = "[fake_port ''p1'' ''net-A'' (PStr ''srv-1'')]"
       and inst = "PDict [(''uuid'', PStr ''srv-2'')]"
       and ?s2.0 = "[fake_port ''p1'' ''net-A'' (PStr ''srv-1'')]"
       and port_info = "PDict [(''port'', fake_port ''p1'' ''net-A'' (PStr ''srv-1''))]"
       and ?s3.0 = "[fake_port ''p1'' ''net-A'' (PStr ''srv-1'')]"
       and port = "fake_port ''p1'' ''net-A'' (PStr ''srv-1'')"
       and device_id = "PStr ''srv-1''"]
  show ?thesis by blast
qed

text \<open>
  C2 as stated fails: the two checks of \<open>create\<close> test truth values. A body with
  \<open>fixed_ips: [{ip_address: ""}]\<close> and no \<open>net_id\<close>, and a body with \<open>net_id: ""\<close>
  together with \<open>port_id: "p7"\<close>, both pass the checks; the interface is attached and the
  new attachment returned.
\<close>

theorem create_falsy_inputs_not_BadRequest:
  "fst (create (fake_api True) admin_req ''srv-1''
          (PDict [(''interface_attachment'',
             PDict [(''fixed_ips'', PList [PDict [(''ip_address'', PStr [])]])])])
          (start []))
     = Inr (Body (PDict [(''interface_attachment'',
         PDict [(''net_id'', PStr ''net-A''),
                (''port_id'', PStr ''p1''),
                (''mac_addr'', PStr ''fa:16:3e:00:00:01''),
                (''port_state'', PStr ''ACTIVE''),
                (''fixed_ips'', PList [PDict [(''ip_address'', PStr ''10.0.0.2'')]])])]))
   \<and> fst (create (fake_api True) admin_req ''srv-1''
          (PDict [(''interface_attachment'',
             PDict [(''net_id'', PStr []), (''port_id'', PStr ''p7'')])])
          (start []))
     = Inr (Body (PDict [(''interface_attachment'',
         PDict [(''net_id'', PStr ''net-A''),
                (''port_id'', PStr ''p1''),
                (''mac_addr'', PStr ''fa:16:3e:00:00:01''),
                (''port_state'', PStr ''ACTIVE''),
                (''fixed_ips'', PList [PDict [(''ip_address'', PStr ''10.0.0.2'')]])])]))"
  by (simp add: create_def show_attachment_def invoke_def LOG_def create_params_def
        req_ip_of_def translate_interface_attachment_view_def Let_def fixture_defs)

text \<open>
  C2, amended. Once the authorization check has passed, \<open>create\<close> raises
  \<open>HTTPBadRequest\<close> (400) whenever the extracted \<open>net_id\<close> and \<open>port_id\<close> are both true
  values, and whenever the extracted \<open>ip_address\<close> is a true value while \<open>net_id\<close> is not
  (absent, null or empty). The authorization check is then the only call made: the
  backend is left as the check left it, whatever its state.
\<close>

theorem create_BadRequest:
  assumes auth: "api (Authorize (nova_context req)) (backend w0) = (Inr u, s1)"
  shows "(create_params body = Inr (network_id, port_id, req_ip) \<and>
          (truthy network_id \<and> truthy port_id \<or> truthy req_ip \<and> \<not> truthy network_id) \<longrightarrow>
            create api req server_id body w0 =
              (Inl (HTTP HTTPBadRequest None),
               \<lparr>backend = s1, trace = trace w0 @ [Call (Authorize (nova_context req))]\<rparr>))
       \<and> (kvs \<noteq> [] \<and> map_of kvs ''interface_attachment'' = Some (PDict att) \<and>
          map_of att ''net_id'' = Some n \<and> truthy n \<and>
          map_of att ''port_id'' = Some p \<and> truthy p \<longrightarrow>
            create api req server_id (PDict kvs) w0 =
              (Inl (HTTP HTTPBadRequest None),
               \<lparr>backend = s1, trace = trace w0 @ [Call (Authorize (nova_context req))]\<rparr>))
       \<and> (kvs \<noteq> [] \<and> map_of kvs ''interface_attachment'' = Some (PDict att) \<and>
          map_of att ''net_id'' = None \<and>
          map_of att ''fixed_ips'' = Some (PList (PDict ip # others)) \<and>
          map_of ip ''ip_address'' = Some x \<and> truthy x \<longrightarrow>
            create api req server_id (PDict kvs) w0 =
              (Inl (HTTP HTTPBadRequest None),
               \<lparr>backend = s1, trace = trace w0 @ [Call (Authorize (nova_context req))]\<rparr>))
       \<and> status_of (HTTP HTTPBadRequest None) = Some 400"
proof (intro conjI impI)
  assume "create_params body = Inr (network_id, port_id, req_ip) \<and>
          (truthy network_id \<and> truthy port_id \<or> truthy req_ip \<and> \<not> truthy network_id)"
  with auth show "create api req server_id body w0 =
              (Inl (HTTP HTTPBadRequest None),
               \<lparr>backend = s1, trace = trace w0 @ [Call (Authorize (nova_context req))]\<rparr>)"
    by (auto simp add: create_def invoke_def Let_def)
next
  assume h: "kvs \<noteq> [] \<and> map_of kvs ''interface_attachment'' = Some (PDict att) \<and>
          map_of att ''net_id'' = Some n \<and> truthy n \<and>
          map_of att ''port_id'' = Some p \<and> truthy p"
  then have "create_params (PDict kvs) = Inr (n, p, req_ip_of (PDict att))"
    by (simp add: create_params_dict)
  with auth h show "create api req server_id (PDict kvs) w0 =
              (Inl (HTTP HTTPBadRequest None),
               \<lparr>backend = s1, trace = trace w0 @ [Call (Authorize (nova_context req))]\<rparr>)"
    by (simp add: create_def invoke_def Let_def)
next
  assume h: "kvs \<noteq> [] \<and> map_of kvs ''interface_attachment'' = Some (PDict att) \<and>
          map_of att ''net_id'' = None \<and>
          map_of att ''fixed_ips'' = Some (PList (PDict ip # others)) \<and>
          map_of ip ''ip_address'' = Some x \<and> truthy x"
  then have "create_params (PDict kvs) =
               Inr (PNone, case map_of att ''port_id'' of None \<Rightarrow> PNone | Some v \<Rightarrow> v, x)"
    by (simp add: create_params_dict req_ip_of_first_address)
  with auth h show "create api req server_id (PDict kvs) w0 =
              (Inl (HTTP HTTPBadRequest None),
               \<lparr>backend = s1, trace = trace w0 @ [Call (Authorize (nova_context req))]\<rparr>)"
    by (simp add: create_def invoke_def Let_def)
next
  show "status_of (HTTP HTTPBadRequest None) = Some 400" by simp
qed

text \<open>
  Both \<open>net_id\<close> and \<open>port_id\<close> given; then an address given without \<open>net_id\<close>; and the
  first of the two once more, through what the parse extracts.
\<close>

theorem create_BadRequest_witness:
  "create (fake_api True) admin_req ''srv-1''
     (PDict [(''interface_attachment'',
        PDict [(''net_id'', PStr ''net-A''), (''port_id'', PStr ''p1'')])])
     (start [])
   = (Inl (HTTP HTTPBadRequest None),
      \<lparr>backend = [], trace = [] @ [Call (Authorize (nova_context admin_req))]\<rparr>)
   \<and> create (fake_api True) admin_req ''srv-1''
     (PDict [(''interface_attachment'',
        PDict [(''fixed_ips'', PList [PDict [(''ip_address'', PStr ''10.0.0.9'')]])])])
     (start [])
   = (Inl (HTTP HTTPBadRequest None),
      \<lparr>backend = [], trace = [] @ [Call (Authorize (nova_context admin_req))]\<rparr>)
   \<and> create_params (PDict [(''interface_attachment'',
        PDict [(''net_id'', PStr ''net-A''), (''port_id'', PStr ''p1'')])])
     = Inr (PStr ''net-A'', PStr ''p1'', PNone)"
proof -
  let ?both = "[(''net_id'', PStr ''net-A''), (''port_id'', PStr ''p1'')]"
  let ?addr = "[(''fixed_ips'', PList [PDict [(''ip_address'', PStr ''10.0.0.9'')]])]"
  have auth: "fake_api True (Authorize (nova_context admin_req)) (backend (start []))
                = (Inr PNone, [])"
    by (simp add: fixture_defs)
  have h1: "create_params (PDict [(''interface_attachment'', PDict ?both)])
              = Inr (PStr ''net-A'', PStr ''p1'', PNone) \<and>
            (truthy (PStr ''net-A'') \<and> truthy (PStr ''p1'')
             \<or> truthy PNone \<and> \<not> truthy (PStr ''net-A''))"
    by (simp add: create_params_def req_ip_of_def)
  have h2: "[(''interface_attachment'', PDict ?both)] \<noteq> [] \<and>
            map_of [(''interface_attachment'', PDict ?both)] ''interface_attachment''
              = Some (PDict ?both) \<and>
            map_of ?both ''net_id'' = Some (PStr ''net-A'') \<and> truthy (PStr ''net-A'') \<and>
            map_of ?both ''port_id'' = Some (PStr ''p1'') \<and> truthy (PStr ''p1'')"
    by simp
  have h3: "[(''interface_attachment'', PDict ?addr)] \<noteq> [] \<and>
            map_of [(''interface_attachment'', PDict ?addr)] ''interface_attachment''
              = Some (PDict ?addr) \<and>
            map_of ?addr ''net_id'' = None \<and>
            map_of ?addr ''fixed_ips'' = Some (PList (PDict [(''ip_address'', PStr ''10.0.0.9'')] # [])) \<and>
            map_of [(''ip_address'', PStr ''10.0.0.9'')] ''ip_address'' = Some (PStr ''10.0.0.9'') \<and>
            truthy (PStr ''10.0.0.9'')"
    by simp
  have t: "trace (start []) = ([] :: event list)"
    by (simp add: start_def)
  note both_case = create_BadRequest
         [where api = "fake_api True" and req = admin_req and ?w0.0 = "start []"
            and server_id = "''srv-1''"
            and body = "PDict [(''interface_attachment'', PDict ?both)]"
            and network_id = "PStr ''net-A''" and port_id = "PStr ''p1''" and req_ip = PNone
            and kvs = "[(''interface_attachment'', PDict ?both)]" and att = ?both
            and n = "PStr ''net-A''" and p = "PStr ''p1''",
          OF auth]
  note addr_case = create_BadRequest
         [where api = "fake_api True" and req = admin_req and ?w0.0 = "start []"
            and server_id = "''srv-1''"
            and kvs = "[(''interface_attachment'', PDict ?addr)]" and att = ?addr
            and ip = "[(''ip_address'', PStr ''10.0.0.9'')]" and others = "[]"
            and x = "PStr ''10.0.0.9''",
          OF auth]
  from both_case h2 have a: "create (fake_api True) admin_req ''srv-1''
          (PDict [(''interface_attachment'', PDict ?both)]) (start []) =
        (Inl (HTTP HTTPBadRequest None),
         \<lparr>backend = [], trace = trace (start []) @ [Call (Authorize (nova_context admin_req))]\<rparr>)"
    by blast
  from addr_case h3 have b: "create (fake_api True) admin_req ''srv-1''
          (PDict [(''interface_attachment'', PDict ?addr)]) (start []) =
        (Inl (HTTP HTTPBadRequest None),
         \<lparr>backend = [], trace = trace (start []) @ [Call (Authorize (nova_context admin_req))]\<rparr>)"
    by blast
  from a b h1 show ?thesis
    by (simp only: t)
qed

text \<open>
  C3 as stated fails for \<open>update\<close>: it answers a caller the policy rejects with 501, and
  no authorization check is in its trace.
\<close>

theorem update_without_authorize:
  "fst (update (fake_api True) guest_req ''srv-1'' (PStr ''p1'') PNone (start []))
     = Inl (HTTP HTTPNotImplemented (Some ''Attachments update is not supported''))
   \<and> trace (snd (update (fake_api True) guest_req ''srv-1'' (PStr ''p1'') PNone (start [])))
     = []"
  by (simp add: update_def start_def)

text \<open>
  C3, amended. For \<open>index\<close>, \<open>show\<close>, \<open>create\<close> and \<open>delete\<close> and every request, the
  authorization check is the first thing the operation does: the events it adds to the
  trace begin with the call of the authorizer, and when that call raises, its exception is
  the outcome and nothing else has been called. \<open>update\<close> makes no authorization check
  (and no other call): it leaves the trace as it was.
\<close>

theorem authorize_first:
  "(\<exists>r w' rest. index api req server_id w0 = (r, w') \<and>
       trace w' = trace w0 @ Call (Authorize (nova_context req)) # rest)
   \<and> (\<exists>r w' rest. show_attachment api req server_id port_id w0 = (r, w') \<and>
       trace w' = trace w0 @ Call (Authorize (nova_context req)) # rest)
   \<and> (\<exists>r w' rest. create api req server_id body w0 = (r, w') \<and>
       trace w' = trace w0 @ Call (Authorize (nova_context req)) # rest)
   \<and> (\<exists>r w' rest. delete api req server_id port_id w0 = (r, w') \<and>
       trace w' = trace w0 @ Call (Authorize (nova_context req)) # rest)
   \<and> (api (Authorize (nova_context req)) (backend w0) = (Inl e, s1) \<longrightarrow>
        index api req server_id w0 =
          (Inl e, \<lparr>backend = s1, trace = trace w0 @ [Call (Authorize (nova_context req))]\<rparr>)
        \<and> show_attachment api req server_id port_id w0 =
          (Inl e, \<lparr>backend = s1, trace = trace w0 @ [Call (Authorize (nova_context req))]\<rparr>)
        \<and> create api req server_id body w0 =
          (Inl e, \<lparr>backend = s1, trace = trace w0 @ [Call (Authorize (nova_context req))]\<rparr>)
        \<and> delete api req server_id port_id w0 =
          (Inl e, \<lparr>backend = s1, trace = trace w0 @ [Call (Authorize (nova_context req))]\<rparr>))
   \<and> trace (snd (update api req server_id port_id body w0)) = trace w0"
proof (intro conjI impI)
  show "\<exists>r w' rest. index api req server_id w0 = (r, w') \<and>
       trace w' = trace w0 @ Call (Authorize (nova_context req)) # rest"
    unfolding index_def
    using items_trace [of api req server_id translate_interface_attachment_view w0]
    by (cases "items api req server_id translate_interface_attachment_view w0") simp
  show "\<exists>r w' rest. show_attachment api req server_id port_id w0 = (r, w') \<and>
       trace w' = trace w0 @ Call (Authorize (nova_context req)) # rest"
    using show_attachment_trace [of api req server_id port_id w0]
    by (cases "show_attachment api req server_id port_id w0") simp
  show "\<exists>r w' rest. create api req server_id body w0 = (r, w') \<and>
       trace w' = trace w0 @ Call (Authorize (nova_context req)) # rest"
    using create_trace [of api req server_id body w0]
    by (cases "create api req server_id body w0") simp
  show "\<exists>r w' rest. delete api req server_id port_id w0 = (r, w') \<and>
       trace w' = trace w0 @ Call (Authorize (nova_context req)) # rest"
    using delete_trace [of api req server_id port_id w0]
    by (cases "delete api req server_id port_id w0") simp
  show "trace (snd (update api req server_id port_id body w0)) = trace w0"
    by (simp add: update_def)
next
  assume a: "api (Authorize (nova_context req)) (backend w0) = (Inl e, s1)"
  then show "index api req server_id w0 =
          (Inl e, \<lparr>backend = s1, trace = trace w0 @ [Call (Authorize (nova_context req))]\<rparr>)"
    by (simp add: index_def items_def invoke_def Let_def)
  from a show "show_attachment api req server_id port_id w0 =
          (Inl e, \<lparr>backend = s1, trace = trace w0 @ [Call (Authorize (nova_context req))]\<rparr>)"
    by (simp add: show_attachment_def invoke_def Let_def)
  from a show "create api req server_id body w0 =
          (Inl e, \<lparr>backend = s1, trace = trace w0 @ [Call (Authorize (nova_context req))]\<rparr>)"
    by (simp add: create_def invoke_def Let_def)
  from a show "delete api req server_id port_id w0 =
          (Inl e, \<lparr>backend = s1, trace = trace w0 @ [Call (Authorize (nova_context req))]\<rparr>)"
    by (simp add: delete_def invoke_def Let_def)
qed

text \<open>A caller the policy rejects lists the attachments of \<open>srv-1\<close>.\<close>

theorem authorize_first_witness:
  "fake_api True (Authorize (nova_context guest_req)) (backend (start []))
     = (Inl (Nova NovaException ''Policy does not allow this request''), [])
   \<and> index (fake_api True) guest_req ''srv-1'' (start [])
     = (Inl (Nova NovaException ''Policy does not allow this request''),
        \<lparr>backend = [], trace = [Call (Authorize (nova_context guest_req))]\<rparr>)"
proof -
  have a: "fake_api True (Authorize (nova_context guest_req)) (backend (start []))
     = (Inl (Nova NovaException ''Policy does not allow this request''), [])"
    by (simp add: fixture_defs)
  have t: "trace (start []) = ([] :: event list)"
    by (simp add: start_def)
  from a authorize_first
         [where api = "fake_api True" and req = guest_req and ?w0.0 = "start []"
            and server_id = "''srv-1''" and ?s1.0 = "[]"
            and e = "Nova NovaException ''Policy does not allow this request''"]
  show ?thesis
    by (simp add: t)
qed

text \<open>
  C4 holds for the two nova exceptions and fails for \<open>NotImplementedError\<close>: on a
  deployment whose driver cannot hot-plug interfaces, \<open>create\<close> and \<open>delete\<close> both end
  with \<open>AttributeError\<close>, which is no HTTP exception and has no status 501.
\<close>

theorem create_delete_NotImplementedError:
  "fst (create (fake_api False) admin_req ''srv-1''
          (PDict [(''interface_attachment'', PDict [(''net_id'', PStr ''net-A'')])])
          (start []))
     = Inl (Builtin AttributeError)
   \<and> fst (delete (fake_api False) admin_req ''srv-1'' (PStr ''p1'') (start []))
     = Inl (Builtin AttributeError)
   \<and> status_of (Builtin AttributeError) = None"
  by (simp add: create_def delete_def invoke_def LOG_def create_params_def req_ip_of_def
        create_except_def raise_explained_def Let_def fixture_defs)

text \<open>
  C5. When the authorization check passes, the instance exists and the network service
  returns, for the requested id, a port whose \<open>device_id\<close> is the server id of the request
  path, \<open>show\<close> succeeds. Its view has \<open>net_id\<close>, \<open>port_id\<close>, \<open>mac_addr\<close> and \<open>port_state\<close>
  equal to the port's \<open>network_id\<close>, \<open>id\<close>, \<open>mac_address\<close> and \<open>status\<close>, and
  \<open>fixed_ips\<close> equal to the port's \<open>fixed_ips\<close>, or to \<open>None\<close> when the port has none. So the
  view's \<open>port_id\<close> is the requested id, the port returned being the one asked for.
\<close>

theorem show_own_port_view:
  assumes auth: "api (Authorize (nova_context req)) (backend w0) = (Inr u, s1)"
    and inst: "api (Compute_get (nova_context req) server_id) s1 = (Inr inst, s2)"
    and port: "api (Show_port (nova_context req) (PStr port_id)) s2
                 = (Inr port_info, s3)"
    and info: "getitem_key port_info ''port'' = Inr (PDict kvs)"
    and dev: "map_of kvs ''device_id'' = Some (PStr server_id)"
    and net: "map_of kvs ''network_id'' = Some network_id"
    and pid: "map_of kvs ''id'' = Some pid"
    and mac: "map_of kvs ''mac_address'' = Some mac_address"
    and st: "map_of kvs ''status'' = Some status"
  shows "show_attachment api req server_id (PStr port_id) w0 =
           (Inr (Body (PDict [(''interface_attachment'',
              PDict [(''net_id'', network_id),
                     (''port_id'', pid),
                     (''mac_addr'', mac_address),
                     (''port_state'', status),
                     (''fixed_ips'',
                        case map_of kvs ''fixed_ips'' of None \<Rightarrow> PNone | Some v \<Rightarrow> v)])])),
            \<lparr>backend = s3,
             trace = trace w0 @ [Call (Authorize (nova_context req)),
                                 Call (Compute_get (nova_context req) server_id),
                                 Call (Show_port (nova_context req) (PStr port_id))]\<rparr>)
         \<and> (pid = PStr port_id \<longrightarrow>
              (\<exists>view. fst (show_attachment api req server_id (PStr port_id) w0)
                         = Inr (Body (PDict [(''interface_attachment'', view)]))
                    \<and> getitem_key view ''port_id'' = Inr (PStr port_id)))"
proof -
  have v: "translate_interface_attachment_view (PDict kvs) =
     Inr (PDict [(''net_id'', network_id),
                 (''port_id'', pid),
                 (''mac_addr'', mac_address),
                 (''port_state'', status),
                 (''fixed_ips'', case map_of kvs ''fixed_ips'' of None \<Rightarrow> PNone | Some v \<Rightarrow> v)])"
    using net pid mac st by (rule translate_view_dict)
  have r: "show_attachment api req server_id (PStr port_id) w0 =
           (Inr (Body (PDict [(''interface_attachment'',
              PDict [(''net_id'', network_id),
                     (''port_id'', pid),
                     (''mac_addr'', mac_address),
                     (''port_state'', status),
                     (''fixed_ips'',
                        case map_of kvs ''fixed_ips'' of None \<Rightarrow> PNone | Some v \<Rightarrow> v)])])),
            \<lparr>backend = s3,
             trace = trace w0 @ [Call (Authorize (nova_context req)),
                                 Call (Compute_get (nova_context req) server_id),
                                 Call (Show_port (nova_context req) (PStr port_id))]\<rparr>)"
    using auth inst port info dev
    by (simp add: show_attachment_def invoke_def Let_def v)
  show ?thesis
    by (simp add: r)
qed

text \<open>A port of \<open>srv-1\<close> that has no \<open>fixed_ips\<close>, shown under \<open>srv-1\<close>.\<close>

theorem show_own_port_view_witness:
  "fst (show_attachment (fake_api True) admin_req ''srv-1'' (PStr ''p9'')
          (start [PDict [(''id'', PStr ''p9''), (''network_id'', PStr ''net-B''),
                         (''mac_address'', PStr ''fa:16:3e:00:00:09''),
                         (''status'', PStr ''DOWN''), (''device_id'', PStr ''srv-1'')]]))
     = Inr (Body (PDict [(''interface_attachment'',
         PDict [(''net_id'', PStr ''net-B''),
                (''port_id'', PStr ''p9''),
                (''mac_addr'', PStr ''fa:16:3e:00:00:09''),
                (''port_state'', PStr ''DOWN''),
                (''fixed_ips'', PNone)])]))"
proof -
  let ?kvs = "[(''id'', PStr ''p9''), (''network_id'', PStr ''net-B''),
               (''mac_address'', PStr ''fa:16:3e:00:00:09''),
               (''status'', PStr ''DOWN''), (''device_id'', PStr ''srv-1'')]"
  have auth: "fake_api True (Authorize (nova_context admin_req)) (backend (start [PDict ?kvs]))
                = (Inr PNone, [PDict ?kvs])"
    by (simp add: fixture_defs)
  have inst: "fake_api True (Compute_get (nova_context admin_req) ''srv-1'') [PDict ?kvs]
                = (Inr (PDict [(''uuid'', PStr ''srv-1'')]), [PDict ?kvs])"
    by simp
  have port: "fake_api True (Show_port (nova_context admin_req) (PStr ''p9'')) [PDict ?kvs]
                = (Inr (PDict [(''port'', PDict ?kvs)]), [PDict ?kvs])"
    by (simp add: fixture_defs)
  have info: "getitem_key (PDict [(''port'', PDict ?kvs)]) ''port'' = Inr (PDict ?kvs)"
    by simp
  have dev: "map_of ?kvs ''device_id'' = Some (PStr ''srv-1'')"
    and net: "map_of ?kvs ''network_id'' = Some (PStr ''net-B'')"
    and pid: "map_of ?kvs ''id'' = Some (PStr ''p9'')"
    and mac: "map_of ?kvs ''mac_address'' = Some (PStr ''fa:16:3e:00:00:09'')"
    and st: "map_of ?kvs ''status'' = Some (PStr ''DOWN'')"
    and ips: "map_of ?kvs ''fixed_ips'' = None"
    by simp_all
  from show_own_port_view
         [where api = "fake_api True" and req = admin_req and ?w0.0 = "start [PDict ?kvs]"
            and server_id = "''srv-1''" and port_id = "''p9''",
          OF auth inst port info dev net pid mac st]
  show ?thesis
    by (simp only: ips fst_conv option.case)
qed

text \<open>
  C6. When the request passes the checks of \<open>create\<close> and the attach call returns a port
  record with an \<open>id\<close>, the outcome of \<open>create\<close> is the outcome of \<open>show\<close> for the same
  request, the same server id and that \<open>id\<close>, run in the state the attach call left.
\<close>

theorem create_returns_show:
  assumes auth: "invoke api (Authorize (nova_context req)) w0 = (Inr u, w1)"
    and params: "create_params body = Inr (network_id, port_id, req_ip)"
    and valid: "\<not> (truthy network_id \<and> truthy port_id)"
               "\<not> (truthy req_ip \<and> \<not> truthy network_id)"
    and inst: "invoke api (Compute_get (nova_context req) server_id) w1 = (Inr inst, w2)"
    and attach: "invoke api
                   (Attach_interface (nova_context req) inst network_id port_id req_ip)
                   (LOG (Audit ''Attach interface to %s'' [] inst) w2)
                 = (Inr port_info, w3)"
    and new: "getitem_key port_info ''id'' = Inr new_id"
  shows "create api req server_id body w0 = show_attachment api req server_id new_id w3"
  using assms by (auto simp add: create_def Let_def)

text \<open>The scenario of the spec: \<open>net_id: "net-A"\<close>, and the backend allocates \<open>p1\<close>.\<close>

theorem create_returns_show_witness:
  "create (fake_api True) admin_req ''srv-1''
     (PDict [(''interface_attachment'', PDict [(''net_id'', PStr ''net-A'')])]) (start [])
   = show_attachment (fake_api True) admin_req ''srv-1'' (PStr ''p1'')
       \<lparr>backend = [fake_port ''p1'' ''net-A'' (PStr ''srv-1'')],
        trace = [Call (Authorize (nova_context admin_req)),
                 Call (Compute_get (nova_context admin_req) ''srv-1''),
                 Audit ''Attach interface to %s'' [] (PDict [(''uuid'', PStr ''srv-1'')]),
                 Call (Attach_interface (nova_context admin_req)
                         (PDict [(''uuid'', PStr ''srv-1'')]) (PStr ''net-A'') PNone PNone)]\<rparr>
   \<and> fst (show_attachment (fake_api True) admin_req ''srv-1'' (PStr ''p1'')
       \<lparr>backend = [fake_port ''p1'' ''net-A'' (PStr ''srv-1'')],
        trace = [Call (Authorize (nova_context admin_req)),
                 Call (Compute_get (nova_context admin_req) ''srv-1''),
                 Audit ''Attach interface to %s'' [] (PDict [(''uuid'', PStr ''srv-1'')]),
                 Call (Attach_interface (nova_context admin_req)
                         (PDict [(''uuid'', PStr ''srv-1'')]) (PStr ''net-A'') PNone PNone)]\<rparr>)
     = Inr (Body (PDict [(''interface_attachment'',
         PDict [(''net_id'', PStr ''net-A''),
                (''port_id'', PStr ''p1''),
                (''mac_addr'', PStr ''fa:16:3e:00:00:01''),
                (''port_state'', PStr ''ACTIVE''),
                (''fixed_ips'', PList [PDict [(''ip_address'', PStr ''10.0.0.2'')]])])]))"
proof -
  let ?inst = "PDict [(''uuid'', PStr ''srv-1'')]"
  let ?w1 = "\<lparr>backend = [] :: pyval list,
              trace = [Call (Authorize (nova_context admin_req))]\<rparr>"
  let ?w2 = "\<lparr>backend = [] :: pyval list,
              trace = [Call (Authorize (nova_context admin_req)),
                       Call (Compute_get (nova_context admin_req) ''srv-1'')]\<rparr>"
  let ?w3 = "\<lparr>backend = [fake_port ''p1'' ''net-A'' (PStr ''srv-1'')],
        trace = [Call (Authorize (nova_context admin_req)),
                 Call (Compute_get (nova_context admin_req) ''srv-1''),
                 Audit ''Attach interface to %s'' [] ?inst,
                 Call (Attach_interface (nova_context admin_req)
                         ?inst (PStr ''net-A'') PNone PNone)]\<rparr>"
  have auth: "invoke (fake_api True) (Authorize (nova_context admin_req)) (start [])
                = (Inr PNone, ?w1)"
    by (simp add: invoke_def fixture_defs)
  have params: "create_params (PDict [(''interface_attachment'',
                   PDict [(''net_id'', PStr ''net-A'')])])
                = Inr (PStr ''net-A'', PNone, PNone)"
    by (simp add: create_params_def req_ip_of_def)
  have valid: "\<not> (truthy (PStr ''net-A'') \<and> truthy PNone)"
              "\<not> (truthy PNone \<and> \<not> truthy (PStr ''net-A''))"
    by simp_all
  have inst: "invoke (fake_api True) (Compute_get (nova_context admin_req) ''srv-1'') ?w1
                = (Inr ?inst, ?w2)"
    by (simp add: invoke_def)
  have attach: "invoke (fake_api True)
                  (Attach_interface (nova_context admin_req) ?inst (PStr ''net-A'') PNone PNone)
                  (LOG (Audit ''Attach interface to %s'' [] ?inst) ?w2)
                = (Inr (fake_port ''p1'' ''net-A'' (PStr ''srv-1'')), ?w3)"
    by (simp add: invoke_def LOG_def)
  have new: "getitem_key (fake_port ''p1'' ''net-A'' (PStr ''srv-1'')) ''id'' = Inr (PStr ''p1'')"
    by (simp add: fake_port_def)
  have shown: "fst (show_attachment (fake_api True) admin_req ''srv-1'' (PStr ''p1'') ?w3)
     = Inr (Body (PDict [(''interface_attachment'',
         PDict [(''net_id'', PStr ''net-A''),
                (''port_id'', PStr ''p1''),
                (''mac_addr'', PStr ''fa:16:3e:00:00:01''),
                (''port_state'', PStr ''ACTIVE''),
                (''fixed_ips'', PList [PDict [(''ip_address'', PStr ''10.0.0.2'')]])])]))"
    by (simp add: show_attachment_def invoke_def translate_interface_attachment_view_def
          Let_def fixture_defs)
  from create_returns_show
         [where api = "fake_api True" and req = admin_req and ?w0.0 = "start []"
            and server_id = "''srv-1''",
          OF auth params valid inst attach new] shown
  show ?thesis
    by (rule conjI)
qed

text \<open>
  C7. For every server id, port id, body, request and state of the backend, \<open>update\<close>
  raises \<open>HTTPNotImplemented\<close> (501): it never returns a value, and it leaves the backend
  and the trace untouched, having called no collaborator.
\<close>

theorem update_always_NotImplemented:
  "update api req server_id port_id body w =
     (Inl (HTTP HTTPNotImplemented (Some ''Attachments update is not supported'')), w)
   \<and> status_of (HTTP HTTPNotImplemented (Some ''Attachments update is not supported''))
       = Some 501"
  by (simp add: update_def)

text \<open>
  C8. When the authorization check passes and the instance exists: if the detach call
  raises \<open>PortNotFound\<close>, \<open>delete\<close> raises \<open>HTTPNotFound\<close> (404); if the detach call
  returns, \<open>delete\<close> returns a response with status 202 and an empty body.
\<close>

theorem delete_PortNotFound_or_accepted:
  assumes auth: "api (Authorize (nova_context req)) (backend w0) = (Inr u, s1)"
    and inst: "api (Compute_get (nova_context req) server_id) s1 = (Inr inst, s2)"
    and detach: "api (Detach_interface (nova_context req) inst port_id) s2 = (r, s3)"
  shows "(is_PortNotFound e \<and> r = Inl e \<longrightarrow>
            fst (delete api req server_id port_id w0) = Inl (HTTP HTTPNotFound None)
            \<and> status_of (HTTP HTTPNotFound None) = Some 404)
       \<and> (r = Inr v \<longrightarrow>
            fst (delete api req server_id port_id w0) = Inr (Response 202 []))"
  using auth inst detach
  by (simp add: delete_def invoke_def LOG_def Let_def)

text \<open>Detaching \<open>p1\<close> from \<open>srv-1\<close>: first when no such port exists, then when it does.\<close>

theorem delete_PortNotFound_or_accepted_witness:
  "fst (delete (fake_api True) admin_req ''srv-1'' (PStr ''p1'') (start []))
     = Inl (HTTP HTTPNotFound None)
   \<and> fst (delete (fake_api True) admin_req ''srv-1'' (PStr ''p1'')
            (start [fake_port ''p1'' ''net-A'' (PStr ''srv-1'')]))
     = Inr (Response 202 [])"
proof -
  let ?inst = "PDict [(''uuid'', PStr ''srv-1'')]"
  let ?p = "fake_port ''p1'' ''net-A'' (PStr ''srv-1'')"
  have auth0: "fake_api True (Authorize (nova_context admin_req)) (backend (start []))
                 = (Inr PNone, [])"
    by (simp add: fixture_defs)
  have inst0: "fake_api True (Compute_get (nova_context admin_req) ''srv-1'') []
                 = (Inr ?inst, [])"
    by simp
  have detach0: "fake_api True (Detach_interface (nova_context admin_req) ?inst (PStr ''p1'')) []
                 = (Inl (Nova PortNotFound ''Port could not be found''), [])"
    by simp
  have auth1: "fake_api True (Authorize (nova_context admin_req)) (backend (start [?p]))
                 = (Inr PNone, [?p])"
    by (simp add: fixture_defs)
  have inst1: "fake_api True (Compute_get (nova_context admin_req) ''srv-1'') [?p]
                 = (Inr ?inst, [?p])"
    by simp
  have detach1: "fake_api True (Detach_interface (nova_context admin_req) ?inst (PStr ''p1'')) [?p]
                 = (Inr PNone, [])"
    by (simp add: fixture_defs)
  have nf: "is_PortNotFound (Nova PortNotFound ''Port could not be found'')"
    by simp
  from delete_PortNotFound_or_accepted
         [where api = "fake_api True" and req = admin_req and ?w0.0 = "start []"
            and server_id = "''srv-1''"
            and e = "Nova PortNotFound ''Port could not be found''",
          OF auth0 inst0 detach0]
       delete_PortNotFound_or_accepted
         [where api = "fake_api True" and req = admin_req and ?w0.0 = "start [?p]"
            and server_id = "''srv-1''" and v = PNone,
          OF auth1 inst1 detach1]
       nf
  show ?thesis
    by simp
qed

text \<open>
  C9. When the authorization check passes, the instance exists and has a \<open>uuid\<close>, and the
  network service answers the query for that \<open>device_id\<close> with a list of ports under the
  key \<open>ports\<close>, the \<open>interface_attachments\<close> of the response of \<open>index\<close> is the list of the
  views of these ports, element by element and in the same order; for no ports it is the
  empty list.
\<close>

theorem index_maps_ports_in_order:
  assumes auth: "api (Authorize (nova_context req)) (backend w0) = (Inr u, s1)"
    and inst: "api (Compute_get (nova_context req) server_id) s1 = (Inr inst, s2)"
    and uuid: "getitem_key inst ''uuid'' = Inr uuid"
    and data: "api (List_ports (nova_context req) uuid) s2 = (Inr (PDict kvs), s3)"
    and ports: "map_of kvs ''ports'' = Some (PList ports)"
    and views: "list_all2 (\<lambda>port view. translate_interface_attachment_view port = Inr view)
                  ports views"
  shows "fst (index api req server_id w0) =
           Inr (Body (PDict [(''interface_attachments'', PList views)]))
         \<and> (ports = [] \<longrightarrow> fst (index api req server_id w0) =
              Inr (Body (PDict [(''interface_attachments'', PList [])])))"
proof -
  have m: "make_entities translate_interface_attachment_view ports = Inr views"
    using views by (simp add: make_entities_list_all2)
  have "fst (index api req server_id w0) =
           Inr (Body (PDict [(''interface_attachments'', PList views)]))"
    using auth inst uuid data ports m
    by (simp add: index_def items_def invoke_def Let_def)
  moreover have "ports = [] \<longrightarrow> views = []"
    using views by auto
  ultimately show ?thesis by simp
qed

text \<open>
  Three ports, the first and the last of \<open>srv-1\<close>: they are listed in that order. And
  the scenario of the spec: \<open>srv-1\<close> has no port.
\<close>

theorem index_maps_ports_in_order_witness:
  "fst (index (fake_api True) admin_req ''srv-1''
          (start [fake_port ''p3'' ''net-B'' (PStr ''srv-1''),
                  fake_port ''p2'' ''net-B'' (PStr ''srv-2''),
                  fake_port ''p1'' ''net-A'' (PStr ''srv-1'')]))
     = Inr (Body (PDict [(''interface_attachments'', PList
         [PDict [(''net_id'', PStr ''net-B''),
                 (''port_id'', PStr ''p3''),
                 (''mac_addr'', PStr ''fa:16:3e:00:00:01''),
                 (''port_state'', PStr ''ACTIVE''),
                 (''fixed_ips'', PList [PDict [(''ip_address'', PStr ''10.0.0.2'')]])],
          PDict [(''net_id'', PStr ''net-A''),
                 (''port_id'', PStr ''p1''),
                 (''mac_addr'', PStr ''fa:16:3e:00:00:01''),
                 (''port_state'', PStr ''ACTIVE''),
                 (''fixed_ips'', PList [PDict [(''ip_address'', PStr ''10.0.0.2'')]])]])]))
   \<and> fst (index (fake_api True) admin_req ''srv-1'' (start []))
     = Inr (Body (PDict [(''interface_attachments'', PList [])]))"
proof -
  let ?inst = "PDict [(''uuid'', PStr ''srv-1'')]"
  let ?ps = "[fake_port ''p3'' ''net-B'' (PStr ''srv-1''),
              fake_port ''p2'' ''net-B'' (PStr ''srv-2''),
              fake_port ''p1'' ''net-A'' (PStr ''srv-1'')]"
  let ?mine = "[fake_port ''p3'' ''net-B'' (PStr ''srv-1''),
                fake_port ''p1'' ''net-A'' (PStr ''srv-1'')]"
  let ?views = "[PDict [(''net_id'', PStr ''net-B''),
                 (''port_id'', PStr ''p3''),
                 (''mac_addr'', PStr ''fa:16:3e:00:00:01''),
                 (''port_state'', PStr ''ACTIVE''),
                 (''fixed_ips'', PList [PDict [(''ip_address'', PStr ''10.0.0.2'')]])],
          PDict [(''net_id'', PStr ''net-A''),
                 (''port_id'', PStr ''p1''),
                 (''mac_addr'', PStr ''fa:16:3e:00:00:01''),
                 (''port_state'', PStr ''ACTIVE''),
                 (''fixed_ips'', PList [PDict [(''ip_address'', PStr ''10.0.0.2'')]])]]"
  have uuid: "getitem_key ?inst ''uuid'' = Inr (PStr ''srv-1'')"
    by simp
  have auth: "fake_api True (Authorize (nova_context admin_req)) (backend (start ?ps))
                = (Inr PNone, ?ps)"
    by (simp add: start_def admin_req_def)
  have inst: "fake_api True (Compute_get (nova_context admin_req) ''srv-1'') ?ps
                = (Inr ?inst, ?ps)"
    by simp
  have data: "fake_api True (List_ports (nova_context admin_req) (PStr ''srv-1'')) ?ps
                = (Inr (PDict [(''ports'', PList ?mine)]), ?ps)"
    by (simp add: fake_port_def has_device_def)
  have ports: "map_of [(''ports'', PList ?mine)] ''ports'' = Some (PList ?mine)"
    by simp
  have views: "list_all2 (\<lambda>port view. translate_interface_attachment_view port = Inr view)
                 ?mine ?views"
    by (simp add: translate_interface_attachment_view_def fake_port_def)
  have auth0: "fake_api True (Authorize (nova_context admin_req)) (backend (start []))
                 = (Inr PNone, [])"
    by (simp add: start_def admin_req_def)
  have inst0: "fake_api True (Compute_get (nova_context admin_req) ''srv-1'') []
                 = (Inr ?inst, [])"
    by simp
  have data0: "fake_api True (List_ports (nova_context admin_req) (PStr ''srv-1'')) []
                 = (Inr (PDict [(''ports'', PList [])]), [])"
    by simp
  have ports0: "map_of [(''ports'', PList [])] ''ports'' = Some (PList [])"
    by simp
  have views0: "list_all2 (\<lambda>port view. translate_interface_attachment_view port = Inr view)
                  [] []"
    by simp
  from index_maps_ports_in_order
         [where api = "fake_api True" and req = admin_req and ?w0.0 = "start ?ps"
            and server_id = "''srv-1''",
          OF auth inst uuid data ports views]
       index_maps_ports_in_order
         [where api = "fake_api True" and req = admin_req and ?w0.0 = "start []"
            and server_id = "''srv-1''",
          OF auth0 inst0 uuid data0 ports0 views0]
  show ?thesis
    by blast
qed

text \<open>
  C10. When the authorization check passes: for a body that is not a true value (absent,
  \<open>None\<close>, an empty dictionary) and an instance that exists, \<open>create\<close> raises no
  \<open>HTTPBadRequest\<close> of its own but goes on to call \<open>attach_interface\<close> with \<open>None\<close> for the
  network id, the port id and the address; for a non-empty dictionary without the key
  \<open>interface_attachment\<close>, \<open>create\<close> ends with \<open>KeyError\<close> right after the authorization
  check, and that exception carries no HTTP status.
\<close>

theorem create_body_falsy_or_keyless:
  assumes auth: "api (Authorize (nova_context req)) (backend w0) = (Inr u, s1)"
  shows "(\<not> truthy body \<longrightarrow>
            create_params body = Inr (PNone, PNone, PNone)
            \<and> (\<exists>r w' rest. create api req server_id body w0 = (r, w') \<and>
               trace w' = trace w0 @
                 [Call (Authorize (nova_context req)),
                  Call (Compute_get (nova_context req) server_id)]
                 @ rest))
       \<and> (\<not> truthy body \<and>
          api (Compute_get (nova_context req) server_id) s1 = (Inr inst, s2) \<longrightarrow>
            (\<exists>r w' rest. create api req server_id body w0 = (r, w') \<and>
               trace w' = trace w0 @
                 [Call (Authorize (nova_context req)),
                  Call (Compute_get (nova_context req) server_id),
                  Audit ''Attach interface to %s'' [] inst,
                  Call (Attach_interface (nova_context req) inst PNone PNone PNone)]
                 @ rest))
       \<and> (kvs \<noteq> [] \<and> map_of kvs ''interface_attachment'' = None \<longrightarrow>
            create api req server_id (PDict kvs) w0 =
              (Inl (Builtin KeyError),
               \<lparr>backend = s1, trace = trace w0 @ [Call (Authorize (nova_context req))]\<rparr>)
            \<and> status_of (Builtin KeyError) = None)
       \<and> (truthy body \<and> getitem_key body ''interface_attachment'' = Inl e \<longrightarrow>
            create api req server_id body w0 =
              (Inl e,
               \<lparr>backend = s1, trace = trace w0 @ [Call (Authorize (nova_context req))]\<rparr>)
            \<and> status_of e = None)"
proof (intro conjI impI)
  assume h: "\<not> truthy body"
  then show "create_params body = Inr (PNone, PNone, PNone)"
    by (simp add: create_params_def)
  obtain r w' where res: "create api req server_id body w0 = (r, w')"
    by (cases "create api req server_id body w0")
  from res h auth have "\<exists>rest. trace w' = trace w0 @
                 [Call (Authorize (nova_context req)),
                  Call (Compute_get (nova_context req) server_id)]
                 @ rest"
    unfolding create_def Let_def invoke_def LOG_def create_params_def
    by (auto split: prod.splits sum.splits
             dest!: show_attachment_extends create_except_trace)
  with res show "\<exists>r w' rest. create api req server_id body w0 = (r, w') \<and>
               trace w' = trace w0 @
                 [Call (Authorize (nova_context req)),
                  Call (Compute_get (nova_context req) server_id)]
                 @ rest"
    by blast
next
  assume h: "\<not> truthy body \<and>
          api (Compute_get (nova_context req) server_id) s1 = (Inr inst, s2)"
  obtain r w' where res: "create api req server_id body w0 = (r, w')"
    by (cases "create api req server_id body w0")
  from res h auth have "\<exists>rest. trace w' = trace w0 @
                 [Call (Authorize (nova_context req)),
                  Call (Compute_get (nova_context req) server_id),
                  Audit ''Attach interface to %s'' [] inst,
                  Call (Attach_interface (nova_context req) inst PNone PNone PNone)]
                 @ rest"
    unfolding create_def Let_def invoke_def LOG_def create_params_def
    by (auto split: prod.splits sum.splits
             dest!: show_attachment_extends create_except_trace)
  with res show "\<exists>r w' rest. create api req server_id body w0 = (r, w') \<and>
               trace w' = trace w0 @
                 [Call (Authorize (nova_context req)),
                  Call (Compute_get (nova_context req) server_id),
                  Audit ''Attach interface to %s'' [] inst,
                  Call (Attach_interface (nova_context req) inst PNone PNone PNone)]
                 @ rest"
    by blast
next
  assume "kvs \<noteq> [] \<and> map_of kvs ''interface_attachment'' = None"
  with auth show "create api req server_id (PDict kvs) w0 =
              (Inl (Builtin KeyError),
               \<lparr>backend = s1, trace = trace w0 @ [Call (Authorize (nova_context req))]\<rparr>)"
    by (simp add: create_def invoke_def Let_def create_params_def)
next
  show "status_of (Builtin KeyError) = None" by simp
next
  assume h: "truthy body \<and> getitem_key body ''interface_attachment'' = Inl e"
  with auth show "create api req server_id body w0 =
              (Inl e,
               \<lparr>backend = s1, trace = trace w0 @ [Call (Authorize (nova_context req))]\<rparr>)"
    by (simp add: create_def invoke_def Let_def create_params_def)
  from h show "status_of e = None"
    by (cases body) (auto split: option.splits)
qed

text \<open>An empty dictionary as body; then the body \<open>{"foo": null}\<close>.\<close>

theorem create_body_falsy_or_keyless_witness:
  "\<not> truthy (PDict [])
   \<and> (\<exists>r w' rest. create (fake_api True) admin_req ''srv-1'' (PDict []) (start []) = (r, w') \<and>
        trace w' =
          [Call (Authorize (nova_context admin_req)),
           Call (Compute_get (nova_context admin_req) ''srv-1''),
           Audit ''Attach interface to %s'' [] (PDict [(''uuid'', PStr ''srv-1'')]),
           Call (Attach_interface (nova_context admin_req)
                   (PDict [(''uuid'', PStr ''srv-1'')]) PNone PNone PNone)] @ rest)
   \<and> create (fake_api True) admin_req ''srv-1'' (PDict [(''foo'', PNone)]) (start [])
     = (Inl (Builtin KeyError),
        \<lparr>backend = [], trace = [Call (Authorize (nova_context admin_req))]\<rparr>)"
proof -
  have auth: "fake_api True (Authorize (nova_context admin_req)) (backend (start []))
                = (Inr PNone, [])"
    by (simp add: fixture_defs)
  have h1: "\<not> truthy (PDict []) \<and>
            fake_api True (Compute_get (nova_context admin_req) ''srv-1'') []
              = (Inr (PDict [(''uuid'', PStr ''srv-1'')]), [])"
    by simp
  have h2: "[(''foo'', PNone)] \<noteq> [] \<and> map_of [(''foo'', PNone)] ''interface_attachment'' = None"
    by simp
  have t: "trace (start []) = ([] :: event list)"
    by (simp add: start_def)
  from create_body_falsy_or_keyless
         [where api = "fake_api True" and req = admin_req and ?w0.0 = "start []"
            and server_id = "''srv-1''" and body = "PDict []"
            and inst = "PDict [(''uuid'', PStr ''srv-1'')]" and ?s2.0 = "[]"
            and kvs = "[(''foo'', PNone)]",
          OF auth] h1 h2
  show ?thesis
    by (simp add: t)
qed

end
